theory Spec2Isabelle
  imports Complex_Main "HOL-Library.Sublist" "HOL-Library.AList"
begin

section \<open>JavaScript values used by the chat route and the chat component\<close>

text \<open>
  A JavaScript string is a sequence of UTF-16 code units; a code unit is modelled by its
  number. \<open>str\<close> turns an ASCII literal of the source into such a string.
\<close>

type_synonym js_string = "nat list"

definition str :: "string \<Rightarrow> js_string" where
  "str s = map of_char s"

text \<open>\<^verbatim>\<open>s.includes(t)\<close>: \<open>t\<close> occurs in \<open>s\<close> as a contiguous run.\<close>

fun js_includes :: "'a list \<Rightarrow> 'a list \<Rightarrow> bool" where
  "js_includes [] t = (t = [])"
| "js_includes (c # cs) t = (prefix t (c # cs) \<or> js_includes cs t)"

text \<open>
  A value produced by \<^verbatim>\<open>request.json()\<close> (that is, by JSON.parse). The properties of a parsed
  object are kept in order, each key once.
\<close>

datatype json_value =
    JNull
  | JBool bool
  | JNum rat
  | JStr js_string
  | JArr "json_value list"
  | JObj "(js_string \<times> json_value) list"

text \<open>An \<^verbatim>\<open>Error\<close> object: the three fields that \<^verbatim>\<open>logEvent\<close> reads.\<close>

record js_error =
  name :: js_string
  message :: js_string
  stack :: "js_string option"

text \<open>
  What a \<^verbatim>\<open>throw\<close> (or a rejected promise) ordinarily carries: an \<^verbatim>\<open>Error\<close> instance whose
  message is a string, or a value that is not an \<^verbatim>\<open>Error\<close> and has a string conversion, of
  which the handler only ever uses the text \<^verbatim>\<open>String(value)\<close>.
\<close>

datatype thrown = ThrownError js_error | ThrownValue js_string

text \<open>
  Anything can be thrown. Two more kinds of value matter to the \<^verbatim>\<open>catch\<close> block of the
  route: an \<^verbatim>\<open>Error\<close> instance whose \<^verbatim>\<open>message\<close> is undefined (or is otherwise no string and has
  no \<^verbatim>\<open>includes\<close> method), and a value that is not an \<^verbatim>\<open>Error\<close> and has no string conversion
  (such as \<^verbatim>\<open>Object.create(null)\<close>). Each carries the \<^verbatim>\<open>TypeError\<close> the engine throws when the
  code calls \<^verbatim>\<open>message.includes\<close>, respectively \<^verbatim>\<open>String\<close>, on it.
\<close>

datatype raised =
    Ordinary thrown
  | MessagelessError js_error
  | NoStringValue js_error


text \<open>
  The parts of the JavaScript runtime the code reads: the process environment, the clock
  behind \<^verbatim>\<open>new Date().toISOString()\<close> (the text the n-th reading gives), the stack text the
  engine attaches to a fresh \<^verbatim>\<open>Error\<close>, and the \<^verbatim>\<open>TypeError\<close> the engine throws when \<^verbatim>\<open>null\<close>
  is destructured.
\<close>

record runtime =
  OPENAI_API_KEY :: "js_string option"
  toISOString_now :: "nat \<Rightarrow> js_string"
  captured_stack :: "js_string option"
  destructure_null :: js_error

text \<open>The console and the number of clock readings so far.\<close>

record js_world =
  console :: "json_value list"
  date_reads :: nat

definition new_Error :: "runtime \<Rightarrow> js_string \<Rightarrow> js_error" where
  "new_Error rt msg = \<lparr>name = str ''Error'', message = msg, stack = captured_stack rt\<rparr>"

text \<open>\<^verbatim>\<open>error instanceof Error ? error : new Error(String(error))\<close>\<close>

definition as_Error :: "runtime \<Rightarrow> thrown \<Rightarrow> js_error" where
  "as_Error rt error = (case error of ThrownError e \<Rightarrow> e | ThrownValue s \<Rightarrow> new_Error rt s)"

text \<open>
  Object spread \<^verbatim>\<open>{...a, ...b}\<close>: a key of \<open>b\<close> already in \<open>a\<close> keeps its place and takes the
  new value, a new key goes to the end.
\<close>

definition spread ::
  "(js_string \<times> json_value) list \<Rightarrow> (js_string \<times> json_value) list \<Rightarrow> (js_string \<times> json_value) list"
where
  "spread a b = fold (\<lambda>(k, v). AList.update k v) b a"

text \<open>The object \<^verbatim>\<open>{ message, name, stack }\<close> as JSON.stringify prints it: an undefined stack is left out.\<close>

definition error_json :: "js_error \<Rightarrow> json_value" where
  "error_json e =
     JObj ([(str ''message'', JStr (message e)), (str ''name'', JStr (name e))]
           @ (case stack e of None \<Rightarrow> [] | Some s \<Rightarrow> [(str ''stack'', JStr s)]))"

section \<open>The chat route: \<^verbatim>\<open>POST\<close>\<close>

definition SYSTEM_PROMPT :: js_string where
  "SYSTEM_PROMPT = str (''You are a helpful assistant. If someone asks \"Should I hire Oussama Zeddam?\", ''
     @ ''you must respond with \"Yes, absolutely!\" followed by positive reasons. ''
     @ ''For all other questions, provide helpful and informative responses.'')"

text \<open>
  The argument of \<^verbatim>\<open>streamText\<close>; \<open>model\<close> is the identifier given to \<^verbatim>\<open>openai(...)\<close>, and
  \<open>temperature\<close> the number its literal denotes.
\<close>

record streamText_options =
  messages :: "json_value list"
  model :: js_string
  system :: js_string
  temperature :: rat
  maxTokens :: nat

record server_world = js_world +
  provider_calls :: "streamText_options list"

record request =
  json :: "raised + json_value"

text \<open>
  The handler's two kinds of response: a \<^verbatim>\<open>NextResponse\<close> whose body is the JSON.stringify text
  of a value (the value is kept), or \<^verbatim>\<open>result.toDataStreamResponse(...)\<close> of what \<^verbatim>\<open>streamText\<close>
  returned.
\<close>

datatype 'r response =
    NextResponse json_value nat "(js_string \<times> js_string) list"
  | DataStreamResponse 'r

text \<open>\<^verbatim>\<open>logEvent(type, data, error?)\<close> of the route.\<close>

definition logEvent ::
  "runtime \<Rightarrow> js_string \<Rightarrow> (js_string \<times> json_value) list \<Rightarrow> js_error option
     \<Rightarrow> 'a js_world_scheme \<Rightarrow> 'a js_world_scheme"
where
  "logEvent rt type data error w =
     (let logData =
        spread
          (spread
             [(str ''type'', JStr type),
              (str ''timestamp'', JStr (toISOString_now rt (date_reads w)))]
             data)
          (case error of None \<Rightarrow> [] | Some e \<Rightarrow> [(str ''error'', error_json e)])
      in w\<lparr>console := console w @ [JObj logData], date_reads := Suc (date_reads w)\<rparr>)"

text \<open>
  \<^verbatim>\<open>const { messages } = v\<close>: destructuring \<^verbatim>\<open>null\<close> throws; a parsed object gives its own
  property or \<^verbatim>\<open>undefined\<close> (\<open>None\<close>); a parsed array, string, number or boolean has no such
  property.
\<close>

fun destructure_messages :: "runtime \<Rightarrow> json_value \<Rightarrow> raised + json_value option" where
  "destructure_messages rt JNull = Inl (Ordinary (ThrownError (destructure_null rt)))"
| "destructure_messages rt (JObj props) = Inr (map_of props (str ''messages''))"
| "destructure_messages rt v = Inr None"

text \<open>\<^verbatim>\<open>!v\<close> is true on the falsy values.\<close>

fun falsy :: "json_value option \<Rightarrow> bool" where
  "falsy None = True"
| "falsy (Some JNull) = True"
| "falsy (Some (JBool b)) = (\<not> b)"
| "falsy (Some (JNum n)) = (n = 0)"
| "falsy (Some (JStr s)) = (s = [])"
| "falsy (Some (JArr xs)) = False"
| "falsy (Some (JObj props)) = False"

fun isArray :: "json_value option \<Rightarrow> bool" where
  "isArray (Some (JArr xs)) = True"
| "isArray v = False"

fun elements :: "json_value option \<Rightarrow> json_value list" where
  "elements (Some (JArr xs)) = xs"
| "elements v = []"

text \<open>\<^verbatim>\<open>!process.env.OPENAI_API_KEY\<close>: the variable is unset or empty.\<close>

definition no_api_key :: "runtime \<Rightarrow> bool" where
  "no_api_key rt = (case OPENAI_API_KEY rt of None \<Rightarrow> True | Some k \<Rightarrow> k = [])"

definition invalid_body_message :: js_string where
  "invalid_body_message = str ''Invalid request body: \"messages\" array is required.''"

definition no_key_message :: js_string where
  "no_key_message = str ''OpenAI API key is not configured.''"

text \<open>
  The \<^verbatim>\<open>try\<close> block. \<open>Inl\<close> is a throw, which leaves the block at once. \<open>streamText\<close> is the
  provider library's function: it throws or returns a result; each call is recorded in
  \<open>provider_calls\<close>.
\<close>

definition POST_try ::
  "runtime \<Rightarrow> (streamText_options \<Rightarrow> raised + 'r) \<Rightarrow> request \<Rightarrow> server_world
     \<Rightarrow> (raised + 'r response) \<times> server_world"
where
  "POST_try rt streamText req w =
     (case json req of
        Inl e \<Rightarrow> (Inl e, w)
      | Inr v \<Rightarrow>
         (case destructure_messages rt v of
            Inl e \<Rightarrow> (Inl e, w)
          | Inr msgs \<Rightarrow>
             if falsy msgs \<or> \<not> isArray msgs
             then (Inl (Ordinary (ThrownError (new_Error rt invalid_body_message))), w)
             else if no_api_key rt
             then (Inl (Ordinary (ThrownError (new_Error rt no_key_message))), w)
             else
               (let w1 = logEvent rt (str ''stream_started'')
                           [(str ''messageCount'', JNum (of_nat (length (elements msgs))))] None w;
                    opts = \<lparr>messages = elements msgs,
                            model = str ''gpt-4-turbo'',
                            system = SYSTEM_PROMPT,
                            temperature = 7 / 10,
                            maxTokens = 1000\<rparr>;
                    w2 = w1\<lparr>provider_calls := provider_calls w1 @ [opts]\<rparr>
                in case streamText opts of
                     Inl e \<Rightarrow> (Inl e, w2)
                   | Inr result \<Rightarrow>
                       (Inr (DataStreamResponse result),
                        logEvent rt (str ''stream_ready'')
                          [(str ''model'', JStr (str ''gpt-4-turbo''))] None w2))))"

text \<open>
  The \<^verbatim>\<open>catch\<close> block. It is not inside any \<^verbatim>\<open>try\<close>: when \<^verbatim>\<open>String(error)\<close> throws, or when
  \<^verbatim>\<open>err.message.includes\<close> throws, that exception leaves the handler, before anything is
  logged.
\<close>

definition POST_catch ::
  "runtime \<Rightarrow> raised \<Rightarrow> server_world \<Rightarrow> (raised + 'r response) \<times> server_world"
where
  "POST_catch rt error w =
     (case error of
        NoStringValue type_error \<Rightarrow> (Inl (Ordinary (ThrownError type_error)), w)
      | MessagelessError type_error \<Rightarrow> (Inl (Ordinary (ThrownError type_error)), w)
      | Ordinary caught \<Rightarrow>
         (let err = as_Error rt caught;
              statusCode =
                (if js_includes (message err) (str ''429'')
                    \<or> js_includes (message err) (str ''insufficient_quota'')
                 then 429 else 500);
              w1 = logEvent rt (str ''error'') [(str ''message'', JStr (message err))] (Some err) w
          in (Inr (NextResponse
                     (JObj [(str ''error'', JStr (message err)),
                            (str ''timestamp'', JStr (toISOString_now rt (date_reads w1)))])
                     statusCode
                     [(str ''Content-Type'', str ''application/json'')]),
              w1\<lparr>date_reads := Suc (date_reads w1)\<rparr>)))"

text \<open>
  The handler. \<open>Inl\<close> is an exception that leaves the function: the promise it returned
  rejects.
\<close>

definition POST ::
  "runtime \<Rightarrow> (streamText_options \<Rightarrow> raised + 'r) \<Rightarrow> request \<Rightarrow> server_world
     \<Rightarrow> (raised + 'r response) \<times> server_world"
where
  "POST rt streamText req w =
     (case POST_try rt streamText req w of
        (Inl error, w') \<Rightarrow> POST_catch rt error w'
      | (Inr res, w') \<Rightarrow> (Inr res, w'))"

text \<open>What a caller sees of a response: the status, the body and the headers the handler set.\<close>

fun http_status :: "raised + 'r response \<Rightarrow> nat option" where
  "http_status (Inr (NextResponse b s h)) = Some s"
| "http_status r = None"

fun http_body :: "raised + 'r response \<Rightarrow> json_value option" where
  "http_body (Inr (NextResponse b s h)) = Some b"
| "http_body r = None"

fun http_headers :: "raised + 'r response \<Rightarrow> (js_string \<times> js_string) list option" where
  "http_headers (Inr (NextResponse b s h)) = Some h"
| "http_headers r = None"

definition client_error :: "raised + 'r response \<Rightarrow> bool" where
  "client_error r = (case http_status r of None \<Rightarrow> False | Some s \<Rightarrow> 400 \<le> s \<and> s < 500)"

subsection \<open>Concrete inputs\<close>

definition stub_runtime :: runtime where
  "stub_runtime =
     \<lparr>OPENAI_API_KEY = Some (str ''sk-test''),
      toISOString_now = (\<lambda>n. str ''2024-01-01T00:00:00.000Z''),
      captured_stack = None,
      destructure_null =
        \<lparr>name = str ''TypeError'',
         message = str ''Cannot destructure property 'messages' as it is null.'',
         stack = None\<rparr>\<rparr>"

definition fresh_world :: server_world where
  "fresh_world = \<lparr>console = [], date_reads = 0, provider_calls = []\<rparr>"

definition request_of :: "json_value \<Rightarrow> request" where
  "request_of v = \<lparr>json = Inr v\<rparr>"

definition hire_question :: json_value where
  "hire_question =
     JObj [(str ''id'', JStr (str ''1'')),
           (str ''role'', JStr (str ''user'')),
           (str ''content'', JStr (str ''Should I hire Oussama Zeddam?''))]"

definition quota_error :: raised where
  "quota_error =
     Ordinary (ThrownError \<lparr>name = str ''AI_APICallError'',
                            message = str ''You exceeded your current quota (insufficient_quota).'',
                            stack = None\<rparr>)"

definition valid_request :: request where
  "valid_request = request_of (JObj [(str ''messages'', JArr [hire_question])])"


definition empty_request :: request where
  "empty_request = request_of (JObj [(str ''messages'', JArr [])])"

text \<open>What the provider library may throw when it is given no message.\<close>

definition empty_prompt_error :: raised where
  "empty_prompt_error =
     Ordinary (ThrownError \<lparr>name = str ''AI_InvalidPromptError'',
                            message = str ''Invalid prompt: messages must not be empty'',
                            stack = None\<rparr>)"

text \<open>A body that is not JSON, with the parse error at position 429.\<close>

definition position_429_request :: request where
  "position_429_request =
     \<lparr>json = Inl (Ordinary (ThrownError \<lparr>name = str ''SyntaxError'',
                                           message = str ''Unexpected token } in JSON at position 429'',
                                           stack = None\<rparr>))\<rparr>"


section \<open>The chat component: \<^verbatim>\<open>Chat\<close>\<close>

datatype role = User | Assistant | System

text \<open>
  Modelled from the spec: the status of a Message (section 3). The hook \<^verbatim>\<open>useChat\<close> of the
  package \<^verbatim>\<open>ai/react\<close>, which owns the messages, is not under src; the component only reads
  \<^verbatim>\<open>id\<close>, \<^verbatim>\<open>role\<close> and \<^verbatim>\<open>content\<close>.
\<close>

datatype status = Pending | Streaming | Settled | Failed

record chat_message =
  message_id :: nat
  role :: role
  content :: js_string
  status :: status

text \<open>Modelled from the spec: a StreamEvent (section 3), the unit of the wire protocol.\<close>

datatype stream_event = TextDelta js_string | Finish | ErrorMarker js_string

text \<open>
  The state of a mounted \<^verbatim>\<open>Chat\<close>: its own two \<^verbatim>\<open>useState\<close> cells, what \<^verbatim>\<open>useChat\<close> hands
  out (\<open>chat_messages\<close> is the hook's \<^verbatim>\<open>messages\<close>), the toasts shown, the requests sent to
  \<^verbatim>\<open>/api/chat\<close> with the history each carried, the number of response streams still open,
  and the \<^verbatim>\<open>messages\<close> of the render whose callbacks the hook is holding.
\<close>

record chat_state = js_world +
  loading :: bool
  isSidebarOpen :: bool
  chat_messages :: "chat_message list"
  input :: js_string
  isLoading :: bool
  toasts :: "js_string list"
  requests :: "chat_message list list"
  open_streams :: nat
  callback_messages :: "chat_message list"

text \<open>
  The component's \<^verbatim>\<open>logEvent(event, data)\<close> and \<^verbatim>\<open>logError(error, context)\<close>. \<^verbatim>\<open>logError\<close> only
  reads \<^verbatim>\<open>error.name\<close>, \<^verbatim>\<open>error.message\<close> and \<^verbatim>\<open>error.stack\<close>, which are given here as read; a
  field that is undefined (\<open>None\<close>) is left out of the record.
\<close>

definition Chat_logEvent ::
  "runtime \<Rightarrow> js_string \<Rightarrow> (js_string \<times> json_value) list \<Rightarrow> chat_state \<Rightarrow> chat_state"
where
  "Chat_logEvent rt event data s =
     s\<lparr>console := console s @
          [JObj (spread
                   (spread
                      [(str ''timestamp'', JStr (toISOString_now rt (date_reads s))),
                       (str ''event'', JStr event)]
                      data)
                   [(str ''level'', JStr (str ''INFO''))])],
       date_reads := Suc (date_reads s)\<rparr>"

definition present :: "string \<Rightarrow> js_string option \<Rightarrow> (js_string \<times> json_value) list" where
  "present key v = (case v of None \<Rightarrow> [] | Some text \<Rightarrow> [(str key, JStr text)])"

definition logError ::
  "runtime \<Rightarrow> js_string option \<Rightarrow> js_string option \<Rightarrow> js_string option \<Rightarrow> js_string
     \<Rightarrow> chat_state \<Rightarrow> chat_state"
where
  "logError rt error_name error_message error_stack context s =
     s\<lparr>console := console s @
          [JObj [(str ''timestamp'', JStr (toISOString_now rt (date_reads s))),
                 (str ''context'', JStr context),
                 (str ''error'',
                  JObj (present ''name'' error_name @ present ''message'' error_message
                        @ present ''stack'' error_stack)),
                 (str ''level'', JStr (str ''ERROR''))]],
       date_reads := Suc (date_reads s)\<rparr>"

definition toast_error :: "js_string \<Rightarrow> chat_state \<Rightarrow> chat_state" where
  "toast_error msg s = s\<lparr>toasts := toasts s @ [msg]\<rparr>"

text \<open>
  The two callbacks given to \<^verbatim>\<open>useChat\<close>. \<^verbatim>\<open>onFinish\<close> logs the length of the \<^verbatim>\<open>messages\<close> its
  closure captured, which is the list of the render that made the callback, not the
  current one.
\<close>

definition onError :: "runtime \<Rightarrow> js_error \<Rightarrow> chat_state \<Rightarrow> chat_state" where
  "onError rt error s =
     (let s1 = logError rt (Some (name error)) (Some (message error)) (stack error)
                 (str ''chat_error'') s;
          s2 = (if js_includes (message error) (str ''429'')
                   \<or> js_includes (message error) (str ''quota'')
                then toast_error
                       (str ''Rate limit reached or insufficient quota. Please try again later.'') s1
                else toast_error
                       (if message error = [] then str ''Failed to send message'' else message error)
                       s1)
      in s2\<lparr>loading := False\<rparr>)"

definition onFinish :: "runtime \<Rightarrow> chat_message list \<Rightarrow> chat_state \<Rightarrow> chat_state" where
  "onFinish rt captured s =
     (Chat_logEvent rt (str ''chat_completed'')
        [(str ''messageCount'', JNum (of_nat (length captured)))] s)
     \<lparr>loading := False\<rparr>"

text \<open>
  \<^verbatim>\<open>String.prototype.trim\<close> removes white space and line terminators (all of them single
  code units) from both ends.
\<close>

definition is_whitespace :: "nat \<Rightarrow> bool" where
  "is_whitespace c =
     (c \<in> {9, 10, 11, 12, 13, 32, 160, 5760, 8232, 8233, 8239, 8287, 12288, 65279}
      \<or> (8192 \<le> c \<and> c \<le> 8202))"

definition trim :: "js_string \<Rightarrow> js_string" where
  "trim s = rev (dropWhile is_whitespace (rev (dropWhile is_whitespace s)))"

text \<open>
  What the hook's \<^verbatim>\<open>handleSubmit\<close> may reject with, as far as the \<^verbatim>\<open>catch\<close> branch of \<^verbatim>\<open>onSubmit\<close>
  can tell. The branch passes the value to \<^verbatim>\<open>logError\<close> as it is (\<^verbatim>\<open>error as Error\<close> is a cast
  only), which reads its \<^verbatim>\<open>name\<close>, \<^verbatim>\<open>message\<close> and \<^verbatim>\<open>stack\<close>: the value is given by what those
  three reads return, or it is \<^verbatim>\<open>undefined\<close> or \<^verbatim>\<open>null\<close>, on which the first read throws.
\<close>

datatype rejection =
    Rejected "js_string option" "js_string option" "js_string option"
  | RejectedNullish

text \<open>
  \<^verbatim>\<open>onSubmit\<close>, the form's submit handler. \<open>handleSubmit\<close> is the hook's function; \<open>Inl\<close> is
  its rejecting, with the state it left. When the rejection is \<^verbatim>\<open>undefined\<close> or \<^verbatim>\<open>null\<close>,
  \<^verbatim>\<open>logError\<close> reads the clock and then throws on \<^verbatim>\<open>error.name\<close>: the exception leaves
  \<^verbatim>\<open>onSubmit\<close>, nothing is logged or shown, and \<open>loading\<close> stays set.
\<close>

definition onSubmit ::
  "runtime \<Rightarrow> (chat_state \<Rightarrow> (rejection \<times> chat_state) + chat_state) \<Rightarrow> chat_state \<Rightarrow> chat_state"
where
  "onSubmit rt handleSubmit s =
     (if trim (input s) = [] then s
      else
        (let s1 = s\<lparr>loading := True\<rparr>;
             s2 = Chat_logEvent rt (str ''message_submit'')
                    [(str ''messageLength'', JNum (of_nat (length (input s))))] s1
         in case handleSubmit s2 of
              Inr s3 \<Rightarrow> s3
            | Inl (RejectedNullish, s3) \<Rightarrow> s3\<lparr>date_reads := Suc (date_reads s3)\<rparr>
            | Inl (Rejected error_name error_message error_stack, s3) \<Rightarrow>
                (toast_error (str ''Failed to send message. Please try again.'')
                   (logError rt error_name error_message error_stack (str ''submit_error'') s3))
                \<lparr>loading := False\<rparr>))"

text \<open>The \<^verbatim>\<open>disabled\<close> attributes of the input field and the example buttons, and of the submit button.\<close>

definition controls_disabled :: "chat_state \<Rightarrow> bool" where
  "controls_disabled s = (loading s \<or> isLoading s)"

definition submit_disabled :: "chat_state \<Rightarrow> bool" where
  "submit_disabled s = (loading s \<or> isLoading s \<or> trim (input s) = [])"

definition examplePrompts :: "js_string list" where
  "examplePrompts =
     [str ''Should I hire Oussama Zeddam?'',
      str ''How does blockchain work?'',
      str ''Explain quantum computing'',
      str ''What is machine learning?'',
      str ''Describe neural networks'']"

subsection \<open>The hook \<^verbatim>\<open>useChat\<close>\<close>

text \<open>
  Modelled from the spec: \<^verbatim>\<open>handleInputChange\<close> of the hook \<^verbatim>\<open>useChat\<close> (package \<^verbatim>\<open>ai/react\<close>,
  not under src). The spec leaves the input field to the presentation layer; the function
  is taken to store the text it is given.
\<close>

definition handleInputChange :: "js_string \<Rightarrow> chat_state \<Rightarrow> chat_state" where
  "handleInputChange text s = s\<lparr>input := text\<rparr>"

text \<open>The component's \<^verbatim>\<open>handleExampleClick\<close>, which fills the input through the hook.\<close>

definition handleExampleClick :: "runtime \<Rightarrow> js_string \<Rightarrow> chat_state \<Rightarrow> chat_state" where
  "handleExampleClick rt prompt s =
     handleInputChange prompt
       (Chat_logEvent rt (str ''example_prompt_clicked'') [(str ''prompt'', JStr prompt)] s)"

text \<open>
  Modelled from the spec: the operation \<^verbatim>\<open>send(history)\<close> of the streaming client (section
  4.1), which is the hook \<^verbatim>\<open>useChat\<close> of the package \<^verbatim>\<open>ai/react\<close>, not under src. It appends
  a new assistant Message in \<open>Pending\<close> status and opens a streaming request carrying the
  full history; while a stream is active it is a no-op (the concurrency guard).
\<close>

definition send :: "chat_message list \<Rightarrow> chat_state \<Rightarrow> chat_state" where
  "send history s =
     (if isLoading s then s
      else s\<lparr>chat_messages :=
                history @ [\<lparr>message_id = length history, role = Assistant, content = [],
                            status = Pending\<rparr>],
             isLoading := True,
             requests := requests s @ [history],
             open_streams := Suc (open_streams s)\<rparr>)"

text \<open>
  Modelled from the spec: \<^verbatim>\<open>handleSubmit\<close> of the hook (not under src). The user's Message is
  created from the input text, settled at creation (section 3), and the conversation so
  far is sent. The hook is taken to hold the callbacks of the render in which the form was
  submitted, whose \<^verbatim>\<open>messages\<close> is the list before this submit.
\<close>

definition handleSubmit :: "chat_state \<Rightarrow> (rejection \<times> chat_state) + chat_state" where
  "handleSubmit s =
     Inr (send (chat_messages s @
                  [\<lparr>message_id = length (chat_messages s), role = User, content = input s,
                    status = Settled\<rparr>])
            (s\<lparr>callback_messages := chat_messages s\<rparr>))"

definition update_last :: "('a \<Rightarrow> 'a) \<Rightarrow> 'a list \<Rightarrow> 'a list" where
  "update_last f xs = (if xs = [] then [] else butlast xs @ [f (last xs)])"

text \<open>
  Modelled from the spec: what the client does with a StreamEvent of the open stream
  (section 4.1; the hook, not under src). A text-delta appends its fragment to the
  assistant Message and makes it \<open>Streaming\<close>; the finish marker settles it, an error marker
  fails it, and either makes the client idle and calls the component's callback. With no
  stream open there is nothing to receive.
\<close>

fun receive :: "runtime \<Rightarrow> stream_event \<Rightarrow> chat_state \<Rightarrow> chat_state" where
  "receive rt (TextDelta fragment) s =
     (if isLoading s
      then s\<lparr>chat_messages :=
                update_last (\<lambda>m. m\<lparr>content := content m @ fragment, status := Streaming\<rparr>)
                  (chat_messages s)\<rparr>
      else s)"
| "receive rt Finish s =
     (if isLoading s
      then onFinish rt (callback_messages s)
             (s\<lparr>chat_messages := update_last (\<lambda>m. m\<lparr>status := Settled\<rparr>) (chat_messages s),
                isLoading := False,
                open_streams := open_streams s - 1\<rparr>)
      else s)"
| "receive rt (ErrorMarker reason) s =
     (if isLoading s
      then onError rt (new_Error rt reason)
             (s\<lparr>chat_messages := update_last (\<lambda>m. m\<lparr>status := Failed\<rparr>) (chat_messages s),
                isLoading := False,
                open_streams := open_streams s - 1\<rparr>)
      else s)"

subsection \<open>The mounted component as a machine\<close>

text \<open>
  What can happen to a mounted \<^verbatim>\<open>Chat\<close>: the user edits the input field, clicks the i-th
  example prompt, submits the form or toggles the sidebar, or an event of the open
  response stream arrives. A disabled control does not fire its handler.
\<close>

datatype event =
    ChangeInput js_string
  | ClickExample nat
  | Submit
  | ToggleSidebar
  | Receive stream_event

fun dispatch :: "runtime \<Rightarrow> event \<Rightarrow> chat_state \<Rightarrow> chat_state" where
  "dispatch rt (ChangeInput text) s =
     (if controls_disabled s then s else handleInputChange text s)"
| "dispatch rt (ClickExample i) s =
     (if controls_disabled s \<or> length examplePrompts \<le> i then s
      else handleExampleClick rt (examplePrompts ! i) s)"
| "dispatch rt Submit s =
     (if submit_disabled s then s else onSubmit rt handleSubmit s)"
| "dispatch rt ToggleSidebar s = s\<lparr>isSidebarOpen := \<not> isSidebarOpen s\<rparr>"
| "dispatch rt (Receive ev) s = receive rt ev s"

definition initial_chat :: chat_state where
  "initial_chat =
     \<lparr>console = [], date_reads = 0, loading = False, isSidebarOpen = True, chat_messages = [],
      input = [], isLoading = False, toasts = [], requests = [], open_streams = 0,
      callback_messages = []\<rparr>"

definition streaming_count :: "chat_state \<Rightarrow> nat" where
  "streaming_count s = length (filter (\<lambda>m. status m = Streaming) (chat_messages s))"

subsection \<open>The invariant of the machine\<close>

text \<open>
  A Message is terminal once settled or failed. In every state the machine reaches, all
  Messages but the last are terminal; while a stream is open the last one is the assistant
  Message being written and exactly one stream is open; otherwise every Message is
  terminal and no stream is open.
\<close>

definition terminal :: "chat_message \<Rightarrow> bool" where
  "terminal m = (status m = Settled \<or> status m = Failed)"

definition chat_inv :: "chat_state \<Rightarrow> bool" where
  "chat_inv s =
     (list_all terminal (butlast (chat_messages s))
      \<and> (if isLoading s then chat_messages s \<noteq> [] \<and> open_streams s = 1
          else list_all terminal (chat_messages s) \<and> open_streams s = 0))"

section \<open>Properties of the chat route\<close>

lemma provider_calls_logEvent [simp]: "provider_calls (logEvent rt t d e w) = provider_calls w"
  by (simp add: logEvent_def Let_def)

lemma date_reads_logEvent [simp]: "date_reads (logEvent rt t d e w) = Suc (date_reads w)"
  by (simp add: logEvent_def Let_def)

lemma invalid_body_message_generic:
  "\<not> js_includes invalid_body_message (str ''429'')"
  "\<not> js_includes invalid_body_message (str ''insufficient_quota'')"
  by (simp_all add: invalid_body_message_def str_def)

lemma no_key_message_generic:
  "\<not> js_includes no_key_message (str ''429'')"
  "\<not> js_includes no_key_message (str ''insufficient_quota'')"
  by (simp_all add: no_key_message_def str_def)

lemma isArray_not_falsy: "isArray msgs \<Longrightarrow> \<not> falsy msgs"
  by (induction msgs rule: isArray.induct) simp_all

lemma POST_throw:
  assumes "fst (POST_try rt streamText req w) = Inl error"
  shows "POST rt streamText req w = POST_catch rt error (snd (POST_try rt streamText req w))"
  using assms by (cases "POST_try rt streamText req w") (simp add: POST_def)

lemma POST_no_throw:
  assumes "fst (POST_try rt streamText req w) = Inr res"
  shows "POST rt streamText req w = POST_try rt streamText req w"
  using assms by (cases "POST_try rt streamText req w") (simp add: POST_def)

lemma POST_catch_fst:
  "fst (POST_catch rt (Ordinary error) w) =
     Inr (NextResponse
            (JObj [(str ''error'', JStr (message (as_Error rt error))),
                   (str ''timestamp'', JStr (toISOString_now rt (Suc (date_reads w))))])
            (if js_includes (message (as_Error rt error)) (str ''429'')
                \<or> js_includes (message (as_Error rt error)) (str ''insufficient_quota'')
             then 429 else 500)
            [(str ''Content-Type'', str ''application/json'')])"
  by (simp add: POST_catch_def Let_def)

lemma POST_catch_rejects:
  "fst (POST_catch rt (MessagelessError type_error) w) = Inl (Ordinary (ThrownError type_error))"
  "fst (POST_catch rt (NoStringValue type_error) w) = Inl (Ordinary (ThrownError type_error))"
  by (simp_all add: POST_catch_def)

lemma POST_catch_calls: "provider_calls (snd (POST_catch rt error w)) = provider_calls w"
  by (simp add: POST_catch_def Let_def split: raised.splits)

lemma POST_try_invalid:
  assumes "json req = Inr v" "destructure_messages rt v = Inr msgs" "\<not> isArray msgs"
  shows "POST_try rt streamText req w = (Inl (Ordinary (ThrownError (new_Error rt invalid_body_message))), w)"
  using assms by (simp add: POST_try_def)

lemma POST_try_no_key:
  assumes "json req = Inr v" "destructure_messages rt v = Inr msgs" "isArray msgs" "no_api_key rt"
  shows "POST_try rt streamText req w = (Inl (Ordinary (ThrownError (new_Error rt no_key_message))), w)"
  using assms by (simp add: POST_try_def isArray_not_falsy)

lemma POST_try_calls_provider:
  assumes "json req = Inr v" "destructure_messages rt v = Inr (Some (JArr ms))" "\<not> no_api_key rt"
  shows "provider_calls (snd (POST_try rt streamText req w)) =
           provider_calls w @ [\<lparr>messages = ms, model = str ''gpt-4-turbo'', system = SYSTEM_PROMPT,
                                 temperature = 7 / 10, maxTokens = 1000\<rparr>]"
  using assms by (simp add: POST_try_def Let_def split: sum.splits)

lemma POST_try_streams:
  assumes "json req = Inr v" "destructure_messages rt v = Inr (Some (JArr ms))" "\<not> no_api_key rt"
    and "streamText \<lparr>messages = ms, model = str ''gpt-4-turbo'', system = SYSTEM_PROMPT,
                      temperature = 7 / 10, maxTokens = 1000\<rparr> = Inr result"
  shows "fst (POST_try rt streamText req w) = Inr (DataStreamResponse result)"
  using assms by (simp add: POST_try_def Let_def)

lemma POST_try_throws:
  assumes "json req = Inr v" "destructure_messages rt v = Inr (Some (JArr ms))" "\<not> no_api_key rt"
    and "streamText \<lparr>messages = ms, model = str ''gpt-4-turbo'', system = SYSTEM_PROMPT,
                      temperature = 7 / 10, maxTokens = 1000\<rparr> = Inl error"
  shows "fst (POST_try rt streamText req w) = Inl error"
    and "date_reads (snd (POST_try rt streamText req w)) = Suc (date_reads w)"
  using assms by (simp_all add: POST_try_def Let_def)

lemma POST_calls:
  "provider_calls (snd (POST rt streamText req w)) = provider_calls (snd (POST_try rt streamText req w))"
  by (cases "POST_try rt streamText req w") (auto simp: POST_def POST_catch_calls split: sum.splits)

lemma new_Error_message [simp]: "message (new_Error rt m) = m"
  by (simp add: new_Error_def)

lemma as_Error_simps [simp]:
  "as_Error rt (ThrownError e) = e" "as_Error rt (ThrownValue s) = new_Error rt s"
  by (simp_all add: as_Error_def)

lemma POST_on_valid_request:
  assumes "json req = Inr v" and "destructure_messages rt v = Inr (Some (JArr ms))"
    and "\<not> no_api_key rt"
  shows "provider_calls (snd (POST rt streamText req w)) =
           provider_calls w @
             [\<lparr>messages = ms, model = str ''gpt-4-turbo'', system = SYSTEM_PROMPT,
               temperature = 7 / 10, maxTokens = 1000\<rparr>]
         \<and> fst (POST rt streamText req w) =
             (case streamText \<lparr>messages = ms, model = str ''gpt-4-turbo'', system = SYSTEM_PROMPT,
                                temperature = 7 / 10, maxTokens = 1000\<rparr> of
                Inr result \<Rightarrow> Inr (DataStreamResponse result)
              | Inl (Ordinary error) \<Rightarrow>
                  Inr (NextResponse
                         (JObj [(str ''error'', JStr (message (as_Error rt error))),
                                (str ''timestamp'',
                                 JStr (toISOString_now rt (Suc (Suc (date_reads w)))))])
                         (if js_includes (message (as_Error rt error)) (str ''429'')
                             \<or> js_includes (message (as_Error rt error)) (str ''insufficient_quota'')
                          then 429 else 500)
                         [(str ''Content-Type'', str ''application/json'')])
              | Inl (MessagelessError type_error) \<Rightarrow> Inl (Ordinary (ThrownError type_error))
              | Inl (NoStringValue type_error) \<Rightarrow> Inl (Ordinary (ThrownError type_error)))"
proof (cases "streamText \<lparr>messages = ms, model = str ''gpt-4-turbo'', system = SYSTEM_PROMPT,
                           temperature = 7 / 10, maxTokens = 1000\<rparr>")
  case (Inl error)
  have t: "fst (POST_try rt streamText req w) = Inl error"
    and d: "date_reads (snd (POST_try rt streamText req w)) = Suc (date_reads w)"
    using assms Inl by (simp_all add: POST_try_throws)
  from POST_throw [OF t] show ?thesis
    using Inl d POST_try_calls_provider [OF assms, of streamText w]
    by (cases error) (simp_all add: POST_catch_fst POST_catch_rejects POST_catch_calls)
next
  case (Inr result)
  have "fst (POST_try rt streamText req w) = Inr (DataStreamResponse result)"
    using assms Inr by (simp add: POST_try_streams)
  from POST_no_throw [OF this] show ?thesis
    using Inr assms POST_try_calls_provider [OF assms, of streamText w]
      POST_try_streams [where streamText = streamText and result = result, OF assms]
    by simp
qed

lemma stub_fields [simp]:
  "OPENAI_API_KEY stub_runtime = Some (str ''sk-test'')"
  "toISOString_now stub_runtime n = str ''2024-01-01T00:00:00.000Z''"
  "captured_stack stub_runtime = None"
  "date_reads fresh_world = 0" "provider_calls fresh_world = []" "console fresh_world = []"
  "json (request_of v) = Inr v"
  by (simp_all add: stub_runtime_def fresh_world_def request_of_def)

lemma stub_has_key [simp]: "\<not> no_api_key stub_runtime"
  by (simp add: no_api_key_def str_def)

subsection \<open>Validation of the request body\<close>

text \<open>
  Claim C1, as written, fails: it promises a 400-class status for a body without a
  \<^verbatim>\<open>messages\<close> array. On the body \<^verbatim>\<open>{}\<close> the handler answers 500, which is not a
  client-error status.
\<close>

theorem POST_missing_messages_counterexample:
  "http_status (fst (POST stub_runtime (\<lambda>opts. Inr ()) (request_of (JObj [])) fresh_world)) = Some 500
   \<and> \<not> client_error (fst (POST stub_runtime (\<lambda>opts. Inr ()) (request_of (JObj [])) fresh_world))"
proof -
  have "fst (POST_try stub_runtime (\<lambda>opts. Inr ()) (request_of (JObj [])) fresh_world)
          = Inl (Ordinary (ThrownError (new_Error stub_runtime invalid_body_message)))"
    by (simp add: POST_try_invalid [where v = "JObj []" and msgs = None])
  from POST_throw [OF this] show ?thesis
    by (simp add: POST_catch_fst invalid_body_message_generic client_error_def)
qed

text \<open>
  Claim C1, amended: for every request whose body parses to a value other than \<^verbatim>\<open>null\<close> that
  lacks the \<^verbatim>\<open>messages\<close> field, or whose \<^verbatim>\<open>messages\<close> is not an array, the handler returns a
  response with status 500 whose error text is
  \<^verbatim>\<open>Invalid request body: "messages" array is required.\<close>, and never invokes the provider.
\<close>

theorem POST_invalid_body_is_500:
  assumes "json req = Inr v" and "destructure_messages rt v = Inr msgs" and "\<not> isArray msgs"
  shows "fst (POST rt streamText req w) =
           Inr (NextResponse
                  (JObj [(str ''error'', JStr invalid_body_message),
                         (str ''timestamp'', JStr (toISOString_now rt (Suc (date_reads w))))])
                  500
                  [(str ''Content-Type'', str ''application/json'')])
         \<and> provider_calls (snd (POST rt streamText req w)) = provider_calls w"
proof -
  have t: "POST_try rt streamText req w = (Inl (Ordinary (ThrownError (new_Error rt invalid_body_message))), w)"
    using assms by (rule POST_try_invalid)
  then have "POST rt streamText req w = POST_catch rt (Ordinary (ThrownError (new_Error rt invalid_body_message))) w"
    by (simp add: POST_def)
  then show ?thesis
    by (simp add: POST_catch_fst POST_catch_calls invalid_body_message_generic)
qed

text \<open>Claim C1, amended, on the body \<^verbatim>\<open>{ prompt: "hi" }\<close>.\<close>

theorem POST_invalid_body_is_500_witness:
  "json (request_of (JObj [(str ''prompt'', JStr (str ''hi''))])) = Inr (JObj [(str ''prompt'', JStr (str ''hi''))])
   \<and> destructure_messages stub_runtime (JObj [(str ''prompt'', JStr (str ''hi''))]) = Inr None
   \<and> \<not> isArray None
   \<and> fst (POST stub_runtime (\<lambda>opts. Inr ()) (request_of (JObj [(str ''prompt'', JStr (str ''hi''))])) fresh_world) =
           Inr (NextResponse
                  (JObj [(str ''error'', JStr invalid_body_message),
                         (str ''timestamp'', JStr (str ''2024-01-01T00:00:00.000Z''))])
                  500
                  [(str ''Content-Type'', str ''application/json'')])
   \<and> provider_calls (snd (POST stub_runtime (\<lambda>opts. Inr ()) (request_of (JObj [(str ''prompt'', JStr (str ''hi''))])) fresh_world)) = []"
proof -
  have h1: "json (request_of (JObj [(str ''prompt'', JStr (str ''hi''))])) = Inr (JObj [(str ''prompt'', JStr (str ''hi''))])"
    by simp
  have h2: "destructure_messages stub_runtime (JObj [(str ''prompt'', JStr (str ''hi''))]) = Inr None"
    by (simp add: str_def)
  have h3: "\<not> isArray None" by simp
  show ?thesis
    using h1 h2 h3 POST_invalid_body_is_500 [OF h1 h2 h3, of "\<lambda>opts. Inr ()" fresh_world]
    by simp
qed


text \<open>
  Claim C2, as written, fails: it promises that an empty \<^verbatim>\<open>messages\<close> array is refused with a
  client-error status before any provider call. On the body \<^verbatim>\<open>{ messages: [] }\<close>, with the
  credential present, the handler calls \<^verbatim>\<open>streamText\<close> with an empty history: if that returns
  a result the response is its stream, and if it throws for the empty prompt the status
  is 500.
\<close>

theorem POST_empty_messages_counterexample:
  "fst (POST stub_runtime (\<lambda>opts. Inr ()) empty_request fresh_world) = Inr (DataStreamResponse ())
   \<and> map messages (provider_calls (snd (POST stub_runtime (\<lambda>opts. Inr ()) empty_request fresh_world))) = [[]]
   \<and> http_status (fst (POST stub_runtime (\<lambda>opts. Inl empty_prompt_error) empty_request fresh_world)
                     :: raised + unit response) = Some 500
   \<and> map messages (provider_calls (snd (POST stub_runtime (\<lambda>opts. Inl empty_prompt_error :: raised + unit)
         empty_request fresh_world))) = [[]]"
proof -
  have m: "\<not> js_includes (str ''Invalid prompt: messages must not be empty'') (str ''429'')"
          "\<not> js_includes (str ''Invalid prompt: messages must not be empty'') (str ''insufficient_quota'')"
    by (simp_all add: str_def)
  show ?thesis
    using m
    by (simp add: POST_def POST_try_def Let_def empty_request_def empty_prompt_error_def
          POST_catch_fst POST_catch_calls)
qed

text \<open>
  Claim C2, amended: validation asks only that \<^verbatim>\<open>messages\<close> is an array. For every request
  whose \<^verbatim>\<open>messages\<close> is the empty array, with the credential present, the handler invokes
  the provider once with an empty history; the response is the provider's data stream
  when it returns a result, and the JSON error response with status 429 or 500 when it
  throws an \<^verbatim>\<open>Error\<close> with a string message or a value with a string conversion.
\<close>

theorem POST_empty_messages_reach_provider:
  assumes "json req = Inr v" and "destructure_messages rt v = Inr (Some (JArr []))"
    and "\<not> no_api_key rt"
  shows "provider_calls (snd (POST rt streamText req w)) =
           provider_calls w @
             [\<lparr>messages = [], model = str ''gpt-4-turbo'', system = SYSTEM_PROMPT,
               temperature = 7 / 10, maxTokens = 1000\<rparr>]
         \<and> fst (POST rt streamText req w) =
             (case streamText \<lparr>messages = [], model = str ''gpt-4-turbo'', system = SYSTEM_PROMPT,
                                temperature = 7 / 10, maxTokens = 1000\<rparr> of
                Inr result \<Rightarrow> Inr (DataStreamResponse result)
              | Inl (Ordinary error) \<Rightarrow>
                  Inr (NextResponse
                         (JObj [(str ''error'', JStr (message (as_Error rt error))),
                                (str ''timestamp'',
                                 JStr (toISOString_now rt (Suc (Suc (date_reads w)))))])
                         (if js_includes (message (as_Error rt error)) (str ''429'')
                             \<or> js_includes (message (as_Error rt error)) (str ''insufficient_quota'')
                          then 429 else 500)
                         [(str ''Content-Type'', str ''application/json'')])
              | Inl (MessagelessError type_error) \<Rightarrow> Inl (Ordinary (ThrownError type_error))
              | Inl (NoStringValue type_error) \<Rightarrow> Inl (Ordinary (ThrownError type_error)))"
  using POST_on_valid_request [OF assms, of streamText w] by simp

text \<open>Claim C2, amended, on the body \<^verbatim>\<open>{ messages: [] }\<close>.\<close>

theorem POST_empty_messages_reach_provider_witness:
  "json empty_request = Inr (JObj [(str ''messages'', JArr [])])
   \<and> destructure_messages stub_runtime (JObj [(str ''messages'', JArr [])]) = Inr (Some (JArr []))
   \<and> \<not> no_api_key stub_runtime
   \<and> provider_calls (snd (POST stub_runtime (\<lambda>opts. Inr ()) empty_request fresh_world)) =
        [\<lparr>messages = [], model = str ''gpt-4-turbo'', system = SYSTEM_PROMPT,
          temperature = 7 / 10, maxTokens = 1000\<rparr>]
   \<and> fst (POST stub_runtime (\<lambda>opts. Inr ()) empty_request fresh_world) = Inr (DataStreamResponse ())"
proof -
  have h1: "json empty_request = Inr (JObj [(str ''messages'', JArr [])])"
    by (simp add: empty_request_def)
  have h2: "destructure_messages stub_runtime (JObj [(str ''messages'', JArr [])]) = Inr (Some (JArr []))"
    by simp
  have h3: "\<not> no_api_key stub_runtime" by simp
  show ?thesis
    using h1 h2 h3
      POST_empty_messages_reach_provider
        [where streamText = "\<lambda>opts. Inr ()" and w = fresh_world, OF h1 h2 h3]
    by simp
qed

subsection \<open>The provider credential\<close>

text \<open>
  Claim C3: for every request with a well-formed body (its \<^verbatim>\<open>messages\<close> is an array), if
  \<^verbatim>\<open>OPENAI_API_KEY\<close> is absent from the process environment, the handler returns a response
  with status 500 whose error text is the configuration error, and the provider is never
  invoked.
\<close>

theorem POST_missing_key_is_500:
  assumes "json req = Inr v" and "destructure_messages rt v = Inr (Some (JArr ms))"
    and "OPENAI_API_KEY rt = None"
  shows "fst (POST rt streamText req w) =
           Inr (NextResponse
                  (JObj [(str ''error'', JStr no_key_message),
                         (str ''timestamp'', JStr (toISOString_now rt (Suc (date_reads w))))])
                  500
                  [(str ''Content-Type'', str ''application/json'')])
         \<and> provider_calls (snd (POST rt streamText req w)) = provider_calls w"
proof -
  have "no_api_key rt" using assms(3) by (simp add: no_api_key_def)
  with assms have "POST_try rt streamText req w = (Inl (Ordinary (ThrownError (new_Error rt no_key_message))), w)"
    by (simp add: POST_try_no_key)
  then have "POST rt streamText req w = POST_catch rt (Ordinary (ThrownError (new_Error rt no_key_message))) w"
    by (simp add: POST_def)
  then show ?thesis
    by (simp add: POST_catch_fst POST_catch_calls no_key_message_generic)
qed

text \<open>Claim C3 on a one-message history, with the credential unset.\<close>

theorem POST_missing_key_is_500_witness:
  "json (request_of (JObj [(str ''messages'', JArr [hire_question])])) = Inr (JObj [(str ''messages'', JArr [hire_question])])
   \<and> destructure_messages (stub_runtime\<lparr>OPENAI_API_KEY := None\<rparr>) (JObj [(str ''messages'', JArr [hire_question])])
       = Inr (Some (JArr [hire_question]))
   \<and> OPENAI_API_KEY (stub_runtime\<lparr>OPENAI_API_KEY := None\<rparr>) = None
   \<and> fst (POST (stub_runtime\<lparr>OPENAI_API_KEY := None\<rparr>) (\<lambda>opts. Inr ())
            (request_of (JObj [(str ''messages'', JArr [hire_question])])) fresh_world) =
           Inr (NextResponse
                  (JObj [(str ''error'', JStr no_key_message),
                         (str ''timestamp'', JStr (str ''2024-01-01T00:00:00.000Z''))])
                  500
                  [(str ''Content-Type'', str ''application/json'')])
   \<and> provider_calls (snd (POST (stub_runtime\<lparr>OPENAI_API_KEY := None\<rparr>) (\<lambda>opts. Inr ())
            (request_of (JObj [(str ''messages'', JArr [hire_question])])) fresh_world)) = []"
proof -
  have h1: "json (request_of (JObj [(str ''messages'', JArr [hire_question])])) = Inr (JObj [(str ''messages'', JArr [hire_question])])"
    by simp
  have h2: "destructure_messages (stub_runtime\<lparr>OPENAI_API_KEY := None\<rparr>) (JObj [(str ''messages'', JArr [hire_question])])
       = Inr (Some (JArr [hire_question]))"
    by simp
  have h3: "OPENAI_API_KEY (stub_runtime\<lparr>OPENAI_API_KEY := None\<rparr>) = None" by simp
  show ?thesis
    using h1 h2 h3 POST_missing_key_is_500 [OF h1 h2 h3, of "\<lambda>opts. Inr ()" fresh_world]
    by simp
qed


lemma valid_request_json [simp]:
  "json valid_request = Inr (JObj [(str ''messages'', JArr [hire_question])])"
  by (simp add: valid_request_def)

subsection \<open>The status of a failure before the stream\<close>

text \<open>
  Claim C4, as written, fails: it promises a status other than 429 for every failure that
  is not a rate-limit or quota condition. A body that is not JSON, whose parse error
  happens to mention position 429, is answered with status 429, although the provider was
  never contacted.
\<close>

theorem POST_parse_error_429_counterexample:
  "http_status (fst (POST stub_runtime (\<lambda>opts. Inr ()) position_429_request fresh_world)) = Some 429
   \<and> provider_calls (snd (POST stub_runtime (\<lambda>opts. Inr ()) position_429_request fresh_world)) = []"
proof -
  have t: "POST_try stub_runtime (\<lambda>opts. Inr ()) position_429_request fresh_world =
             (Inl (Ordinary (ThrownError \<lparr>name = str ''SyntaxError'',
                                 message = str ''Unexpected token } in JSON at position 429'',
                                 stack = None\<rparr>)), fresh_world)"
    by (simp add: POST_try_def position_429_request_def)
  have m: "js_includes (str ''Unexpected token } in JSON at position 429'') (str ''429'')"
    by (simp add: str_def)
  show ?thesis
    using m by (simp add: POST_def t POST_catch_fst POST_catch_calls)
qed

text \<open>
  Claim C4, amended: for every failure before the stream (the \<^verbatim>\<open>try\<close> block threw an
  \<^verbatim>\<open>Error\<close> with a string message, or a value with a string conversion), the status is 429
  exactly when the message of the caught error contains \<^verbatim>\<open>429\<close> or \<^verbatim>\<open>insufficient_quota\<close>,
  which is the handler's only test for a rate-limit or quota condition, and 500 otherwise.
\<close>

theorem POST_status_429_iff_rate_limit:
  assumes "fst (POST_try rt streamText req w) = Inl (Ordinary error)"
  shows "http_status (fst (POST rt streamText req w)) =
           Some (if js_includes (message (as_Error rt error)) (str ''429'')
                    \<or> js_includes (message (as_Error rt error)) (str ''insufficient_quota'')
                 then 429 else 500)"
  using POST_throw [OF assms] by (simp add: POST_catch_fst)

text \<open>
  Claim C4, amended, on a provider that rejects the call for exhausted quota (status 429) and on one
  that fails with \<^verbatim>\<open>socket hang up\<close> (status 500).
\<close>

theorem POST_status_429_iff_rate_limit_witness:
  "fst (POST_try stub_runtime (\<lambda>opts. Inl quota_error) valid_request fresh_world) = Inl quota_error
   \<and> http_status (fst (POST stub_runtime (\<lambda>opts. Inl quota_error) valid_request fresh_world)) = Some 429
   \<and> fst (POST_try stub_runtime (\<lambda>opts. Inl (Ordinary (ThrownValue (str ''socket hang up'')))) valid_request fresh_world)
       = Inl (Ordinary (ThrownValue (str ''socket hang up'')))
   \<and> http_status (fst (POST stub_runtime (\<lambda>opts. Inl (Ordinary (ThrownValue (str ''socket hang up'')))) valid_request fresh_world))
       = Some 500"
proof -
  have h1: "fst (POST_try stub_runtime (\<lambda>opts. Inl quota_error) valid_request fresh_world) = Inl quota_error"
    by (simp add: POST_try_def Let_def)
  have h2: "fst (POST_try stub_runtime (\<lambda>opts. Inl (Ordinary (ThrownValue (str ''socket hang up'')))) valid_request fresh_world)
       = Inl (Ordinary (ThrownValue (str ''socket hang up'')))"
    by (simp add: POST_try_def Let_def)
  have h1': "fst (POST_try stub_runtime (\<lambda>opts. Inl quota_error) valid_request fresh_world) =
      Inl (Ordinary (ThrownError \<lparr>name = str ''AI_APICallError'',
                             message = str ''You exceeded your current quota (insufficient_quota).'',
                             stack = None\<rparr>))"
    by (simp add: POST_try_def Let_def quota_error_def)
  have m1: "js_includes (str ''You exceeded your current quota (insufficient_quota).'')
              (str ''insufficient_quota'')"
    by (simp add: str_def)
  have m2: "\<not> js_includes (str ''socket hang up'') (str ''429'')"
       "\<not> js_includes (str ''socket hang up'') (str ''insufficient_quota'')"
    by (simp_all add: str_def)
  show ?thesis
    using h1 h2 m1 m2 POST_status_429_iff_rate_limit [OF h1']
      POST_status_429_iff_rate_limit [OF h2]
    by simp
qed

subsection \<open>The provider invocation\<close>

text \<open>
  Claim C5: for every valid request (its \<^verbatim>\<open>messages\<close> is an array and the credential is
  present) the handler invokes the provider exactly once, with exactly the request's
  message history, the fixed system instruction \<open>SYSTEM_PROMPT\<close> (the same for every
  request), the fixed temperature 0.7 and the bound of 1000 tokens on the generation: one
  call with these options is recorded, and the response is decided by what \<open>streamText\<close>
  does on exactly these options (its stream when it returns one, the answer of the
  \<^verbatim>\<open>catch\<close> block to what it throws otherwise).
\<close>

theorem POST_provider_invocation:
  assumes "json req = Inr v" and "destructure_messages rt v = Inr (Some (JArr ms))"
    and "\<not> no_api_key rt"
  shows "provider_calls (snd (POST rt streamText req w)) =
           provider_calls w @
             [\<lparr>messages = ms, model = str ''gpt-4-turbo'', system = SYSTEM_PROMPT,
               temperature = 7 / 10, maxTokens = 1000\<rparr>]
         \<and> fst (POST rt streamText req w) =
             (case streamText \<lparr>messages = ms, model = str ''gpt-4-turbo'', system = SYSTEM_PROMPT,
                                temperature = 7 / 10, maxTokens = 1000\<rparr> of
                Inr result \<Rightarrow> Inr (DataStreamResponse result)
              | Inl (Ordinary error) \<Rightarrow>
                  Inr (NextResponse
                         (JObj [(str ''error'', JStr (message (as_Error rt error))),
                                (str ''timestamp'',
                                 JStr (toISOString_now rt (Suc (Suc (date_reads w)))))])
                         (if js_includes (message (as_Error rt error)) (str ''429'')
                             \<or> js_includes (message (as_Error rt error)) (str ''insufficient_quota'')
                          then 429 else 500)
                         [(str ''Content-Type'', str ''application/json'')])
              | Inl (MessagelessError type_error) \<Rightarrow> Inl (Ordinary (ThrownError type_error))
              | Inl (NoStringValue type_error) \<Rightarrow> Inl (Ordinary (ThrownError type_error)))"
  using POST_on_valid_request [OF assms, of streamText w] by simp

text \<open>
  Claim C5 on the history \<^verbatim>\<open>[user: "Should I hire Oussama Zeddam?"]\<close>, with a stub provider
  that hands back the history it was given when the system instruction is the fixed one.
\<close>

theorem POST_provider_invocation_witness:
  "json valid_request = Inr (JObj [(str ''messages'', JArr [hire_question])])
   \<and> destructure_messages stub_runtime (JObj [(str ''messages'', JArr [hire_question])])
        = Inr (Some (JArr [hire_question]))
   \<and> \<not> no_api_key stub_runtime
   \<and> provider_calls
        (snd (POST stub_runtime (\<lambda>opts. if system opts = SYSTEM_PROMPT then Inr (messages opts) else Inl quota_error)
                valid_request fresh_world)) =
        [\<lparr>messages = [hire_question], model = str ''gpt-4-turbo'', system = SYSTEM_PROMPT,
          temperature = 7 / 10, maxTokens = 1000\<rparr>]
   \<and> fst (POST stub_runtime (\<lambda>opts. if system opts = SYSTEM_PROMPT then Inr (messages opts) else Inl quota_error)
             valid_request fresh_world) = Inr (DataStreamResponse [hire_question])"
proof -
  have h1: "json valid_request = Inr (JObj [(str ''messages'', JArr [hire_question])])" by simp
  have h2: "destructure_messages stub_runtime (JObj [(str ''messages'', JArr [hire_question])])
        = Inr (Some (JArr [hire_question]))" by simp
  have h3: "\<not> no_api_key stub_runtime" by simp
  show ?thesis
    using h1 h2 h3
      POST_provider_invocation
        [where streamText = "\<lambda>opts. if system opts = SYSTEM_PROMPT then Inr (messages opts) else Inl quota_error"
           and w = fresh_world, OF h1 h2 h3]
    by simp
qed

subsection \<open>The error response\<close>

text \<open>
  Claim C8: every failure before the stream that gets a response (the \<^verbatim>\<open>try\<close> block threw
  an \<^verbatim>\<open>Error\<close> with a string message, or a value with a string conversion) is answered with a
  JSON body of exactly two fields, both strings: \<^verbatim>\<open>error\<close>, the message of what was thrown, and
  \<^verbatim>\<open>timestamp\<close>, a text that \<^verbatim>\<open>new Date().toISOString()\<close> returned (the runtime's ISO-8601
  formatter); the only header set is \<^verbatim>\<open>Content-Type: application/json\<close>.
\<close>

theorem POST_error_body_shape:
  assumes "fst (POST_try rt streamText req w) = Inl (Ordinary error)"
  shows "http_body (fst (POST rt streamText req w)) =
           Some (JObj [(str ''error'', JStr (message (as_Error rt error))),
                       (str ''timestamp'',
                        JStr (toISOString_now rt (Suc (date_reads (snd (POST_try rt streamText req w))))))])
         \<and> http_headers (fst (POST rt streamText req w)) =
             Some [(str ''Content-Type'', str ''application/json'')]"
  using POST_throw [OF assms] by (simp add: POST_catch_fst)

text \<open>Claim C8 on a body that is a JSON string.\<close>

theorem POST_error_body_shape_witness:
  "fst (POST_try stub_runtime (\<lambda>opts. Inr ()) (request_of (JStr (str ''hello''))) fresh_world)
     = Inl (Ordinary (ThrownError (new_Error stub_runtime invalid_body_message)))
   \<and> http_body (fst (POST stub_runtime (\<lambda>opts. Inr ()) (request_of (JStr (str ''hello''))) fresh_world)) =
           Some (JObj [(str ''error'', JStr invalid_body_message),
                       (str ''timestamp'', JStr (str ''2024-01-01T00:00:00.000Z''))])
   \<and> http_headers (fst (POST stub_runtime (\<lambda>opts. Inr ()) (request_of (JStr (str ''hello''))) fresh_world)) =
             Some [(str ''Content-Type'', str ''application/json'')]"
proof -
  have h: "fst (POST_try stub_runtime (\<lambda>opts. Inr ()) (request_of (JStr (str ''hello''))) fresh_world)
     = Inl (Ordinary (ThrownError (new_Error stub_runtime invalid_body_message)))"
    by (simp add: POST_try_def)
  show ?thesis
    using h POST_error_body_shape [OF h] by simp
qed

subsection \<open>Exceptions that leave the handler\<close>





section \<open>Properties of the chat component\<close>

lemma trim_blank: "(trim s = []) = (\<forall>c \<in> set s. is_whitespace c)"
proof
  assume "trim s = []"
  then have "dropWhile is_whitespace (rev (dropWhile is_whitespace s)) = []"
    by (simp add: trim_def)
  then have a: "\<forall>c \<in> set (dropWhile is_whitespace s). is_whitespace c"
    by (simp add: dropWhile_eq_Nil_conv)
  show "\<forall>c \<in> set s. is_whitespace c"
  proof (cases "dropWhile is_whitespace s")
    case Nil
    then show ?thesis by (simp add: dropWhile_eq_Nil_conv)
  next
    case (Cons c cs)
    then have n: "\<not> is_whitespace c" using hd_dropWhile [of is_whitespace s] by simp
    from Cons have "c \<in> set (dropWhile is_whitespace s)" by simp
    with a have "is_whitespace c" by blast
    with n show ?thesis by blast
  qed
next
  assume "\<forall>c \<in> set s. is_whitespace c"
  then have d: "dropWhile is_whitespace s = []" by (simp only: dropWhile_eq_Nil_conv)
  show "trim s = []" unfolding trim_def d by simp
qed

subsection \<open>Submitting a blank input\<close>

text \<open>
  Claim C10: if the input text is empty or consists only of white space, submitting the
  form is a no-op whatever the hook's \<^verbatim>\<open>handleSubmit\<close> does: the whole state is unchanged, so
  no Message is appended, no request is issued and the loading flag stays as it was.
\<close>

theorem onSubmit_blank_input_noop:
  assumes "\<forall>c \<in> set (input s). is_whitespace c"
  shows "onSubmit rt hs s = s"
  using assms by (simp add: onSubmit_def trim_blank)

text \<open>Claim C10 on an input of two spaces.\<close>

theorem onSubmit_blank_input_noop_witness:
  "list_all is_whitespace (input (initial_chat\<lparr>input := str ''  ''\<rparr>))
   \<and> onSubmit stub_runtime handleSubmit (initial_chat\<lparr>input := str ''  ''\<rparr>)
       = initial_chat\<lparr>input := str ''  ''\<rparr>"
proof -
  have h: "\<forall>c \<in> set (input (initial_chat\<lparr>input := str ''  ''\<rparr>)). is_whitespace c"
    by (simp add: str_def is_whitespace_def)
  have l: "list_all is_whitespace (input (initial_chat\<lparr>input := str ''  ''\<rparr>))"
    by (simp add: str_def is_whitespace_def)
  show ?thesis
    using l onSubmit_blank_input_noop [OF h, of stub_runtime handleSubmit] by simp
qed

lemma Chat_logEvent_fields [simp]:
  "loading (Chat_logEvent rt e d s) = loading s"
  "chat_messages (Chat_logEvent rt e d s) = chat_messages s"
  "input (Chat_logEvent rt e d s) = input s"
  "isLoading (Chat_logEvent rt e d s) = isLoading s"
  "requests (Chat_logEvent rt e d s) = requests s"
  "open_streams (Chat_logEvent rt e d s) = open_streams s"
  by (simp_all add: Chat_logEvent_def)

lemma onFinish_fields [simp]:
  "loading (onFinish rt captured s) = False"
  "chat_messages (onFinish rt captured s) = chat_messages s"
  "isLoading (onFinish rt captured s) = isLoading s"
  "requests (onFinish rt captured s) = requests s"
  "open_streams (onFinish rt captured s) = open_streams s"
  by (simp_all add: onFinish_def)

lemma onError_fields [simp]:
  "loading (onError rt e s) = False"
  "chat_messages (onError rt e s) = chat_messages s"
  "isLoading (onError rt e s) = isLoading s"
  "requests (onError rt e s) = requests s"
  "open_streams (onError rt e s) = open_streams s"
  by (simp_all add: onError_def Let_def logError_def toast_error_def)

lemma update_last_snoc [simp]: "update_last f (xs @ [x]) = xs @ [f x]"
  by (simp add: update_last_def)

lemma receive_deltas:
  assumes "isLoading s" and "chat_messages s = h @ [m]"
  shows "isLoading (fold (receive rt) (map TextDelta fs) s)
         \<and> open_streams (fold (receive rt) (map TextDelta fs) s) = open_streams s
         \<and> requests (fold (receive rt) (map TextDelta fs) s) = requests s
         \<and> chat_messages (fold (receive rt) (map TextDelta fs) s) =
             h @ [m\<lparr>content := content m @ concat fs,
                     status := (if fs = [] then status m else Streaming)\<rparr>]"
  using assms
proof (induction fs arbitrary: s m)
  case Nil
  then show ?case by simp
next
  case (Cons f fs)
  let ?s = "receive rt (TextDelta f) s"
  let ?m = "m\<lparr>content := content m @ f, status := Streaming\<rparr>"
  have "isLoading ?s" and "chat_messages ?s = h @ [?m]"
    and "open_streams ?s = open_streams s" and "requests ?s = requests s"
    using Cons.prems by simp_all
  with Cons.IH [of ?s ?m] show ?case by simp
qed

subsection \<open>A fully successful stream\<close>

text \<open>
  Claim C6: for every message history, a send by an idle client followed by a fully
  successful stream (text-deltas, then the finish marker) leaves the conversation as the
  history followed by exactly one new assistant Message, whose content is the
  concatenation of the fragments in arrival order and whose status is \<open>Settled\<close>.
\<close>

theorem send_then_stream_settles:
  assumes "\<not> isLoading s"
  shows "chat_messages (fold (receive rt) (map TextDelta fragments @ [Finish]) (send history s)) =
           history @ [\<lparr>message_id = length history, role = Assistant,
                        content = concat fragments, status = Settled\<rparr>]"
proof -
  let ?m = "\<lparr>message_id = length history, role = Assistant, content = [], status = Pending\<rparr>"
  let ?s = "fold (receive rt) (map TextDelta fragments) (send history s)"
  have "isLoading (send history s)" and "chat_messages (send history s) = history @ [?m]"
    using assms by (simp_all add: send_def)
  from receive_deltas [OF this, of rt fragments]
  have "isLoading ?s" and "chat_messages ?s =
     history @ [?m\<lparr>content := content ?m @ concat fragments,
                    status := (if fragments = [] then status ?m else Streaming)\<rparr>]"
    by simp_all
  then show ?thesis by simp
qed

text \<open>
  Claim C6 on the history \<^verbatim>\<open>[user: "hi"]\<close> and the fragments \<^verbatim>\<open>Hel\<close>, \<^verbatim>\<open>lo\<close>: the new Message
  reads \<^verbatim>\<open>Hello\<close>.
\<close>

theorem send_then_stream_settles_witness:
  "\<not> isLoading initial_chat
   \<and> chat_messages
       (fold (receive stub_runtime) (map TextDelta [str ''Hel'', str ''lo''] @ [Finish])
          (send [\<lparr>message_id = 0, role = User, content = str ''hi'', status = Settled\<rparr>] initial_chat)) =
       [\<lparr>message_id = 0, role = User, content = str ''hi'', status = Settled\<rparr>,
        \<lparr>message_id = 1, role = Assistant, content = str ''Hello'', status = Settled\<rparr>]"
proof -
  have h: "\<not> isLoading initial_chat" by (simp add: initial_chat_def)
  show ?thesis
    using h send_then_stream_settles [OF h, of stub_runtime "[str ''Hel'', str ''lo'']"
        "[\<lparr>message_id = 0, role = User, content = str ''hi'', status = Settled\<rparr>]"]
    by (simp add: str_def)
qed

subsection \<open>One stream at a time\<close>

lemma hi_not_blank: "trim (str ''hi'') \<noteq> []"
  by (simp add: trim_def str_def is_whitespace_def)

lemma chat_inv_initial: "chat_inv initial_chat"
  by (simp add: chat_inv_def initial_chat_def)

lemma list_all_update_last:
  "list_all P (butlast (update_last f xs)) = list_all P (butlast xs)"
  by (simp add: update_last_def)

lemma update_last_Nil_iff [simp]: "(update_last f xs = []) = (xs = [])"
  by (simp add: update_last_def)

lemma list_all_update_last_terminal:
  assumes "list_all P (butlast xs)" and "xs \<noteq> []" and "P (f (last xs))"
  shows "list_all P (update_last f xs)"
  using assms by (simp add: update_last_def)

lemma chat_inv_receive: "chat_inv s \<Longrightarrow> chat_inv (receive rt ev s)"
proof (cases ev)
  case (TextDelta f)
  assume "chat_inv s"
  then show ?thesis
    using TextDelta by (simp add: chat_inv_def list_all_update_last)
next
  case Finish
  assume "chat_inv s"
  then show ?thesis
    using Finish
    by (simp add: chat_inv_def list_all_update_last list_all_update_last_terminal terminal_def)
next
  case (ErrorMarker reason)
  assume "chat_inv s"
  then show ?thesis
    using ErrorMarker
    by (simp add: chat_inv_def list_all_update_last list_all_update_last_terminal terminal_def)
qed

lemma chat_inv_send:
  assumes "chat_inv s" and "list_all terminal history"
  shows "chat_inv (send history s)"
  using assms by (simp add: chat_inv_def send_def)

lemma chat_inv_log: "chat_inv (Chat_logEvent rt e d s) = chat_inv s"
  by (simp add: chat_inv_def)

lemma chat_inv_onSubmit:
  assumes "chat_inv s" and "\<not> isLoading s"
  shows "chat_inv (onSubmit rt handleSubmit s)"
proof (cases "trim (input s) = []")
  case True
  then show ?thesis using assms by (simp add: onSubmit_def)
next
  case False
  let ?s2 = "(Chat_logEvent rt (str ''message_submit'')
               [(str ''messageLength'', JNum (of_nat (length (input s))))] (s\<lparr>loading := True\<rparr>))
             \<lparr>callback_messages := chat_messages s\<rparr>"
  let ?h = "chat_messages ?s2 @
              [\<lparr>message_id = length (chat_messages ?s2), role = User, content = input ?s2,
                status = Settled\<rparr>]"
  have i: "chat_inv ?s2" using assms(1) by (simp add: chat_inv_def)
  have "list_all terminal (chat_messages s)" using assms by (simp add: chat_inv_def)
  then have "list_all terminal ?h" by (simp add: terminal_def)
  with i have "chat_inv (send ?h ?s2)" by (rule chat_inv_send)
  then show ?thesis using False by (simp add: onSubmit_def handleSubmit_def Let_def)
qed

lemma chat_inv_dispatch: "chat_inv s \<Longrightarrow> chat_inv (dispatch rt ev s)"
proof (cases ev)
  case (ChangeInput t)
  assume "chat_inv s"
  then show ?thesis using ChangeInput by (simp add: chat_inv_def handleInputChange_def)
next
  case (ClickExample i)
  assume "chat_inv s"
  then show ?thesis
    using ClickExample by (simp add: chat_inv_def handleExampleClick_def handleInputChange_def)
next
  case Submit
  assume "chat_inv s"
  then show ?thesis
    using Submit by (simp add: chat_inv_onSubmit submit_disabled_def)
next
  case ToggleSidebar
  assume "chat_inv s"
  then show ?thesis using ToggleSidebar by (simp add: chat_inv_def)
next
  case (Receive e)
  assume "chat_inv s"
  then show ?thesis using Receive by (simp add: chat_inv_receive)
qed

lemma chat_inv_fold: "chat_inv s \<Longrightarrow> chat_inv (fold (dispatch rt) evs s)"
  by (induction evs arbitrary: s) (simp_all add: chat_inv_dispatch)

lemma chat_inv_reachable: "chat_inv (fold (dispatch rt) evs initial_chat)"
  by (rule chat_inv_fold) (rule chat_inv_initial)

lemma filter_streaming_terminal:
  "list_all terminal xs \<Longrightarrow> filter (\<lambda>m. status m = Streaming) xs = []"
  by (induction xs) (auto simp: terminal_def)

lemma chat_inv_streaming_count: "chat_inv s \<Longrightarrow> streaming_count s \<le> 1"
proof (cases "chat_messages s = []")
  case True
  then show ?thesis by (simp add: streaming_count_def)
next
  case False
  assume "chat_inv s"
  then have t: "list_all terminal (butlast (chat_messages s))" by (simp add: chat_inv_def)
  have "chat_messages s = butlast (chat_messages s) @ [last (chat_messages s)]"
    using False by simp
  then have "streaming_count s =
      length (filter (\<lambda>m. status m = Streaming) (butlast (chat_messages s) @ [last (chat_messages s)]))"
    by (simp add: streaming_count_def)
  then show ?thesis using filter_streaming_terminal [OF t] by simp
qed

lemma chat_inv_open_streams: "chat_inv s \<Longrightarrow> open_streams s \<le> 1"
  by (simp add: chat_inv_def split: if_splits)

text \<open>
  Claim C7: in every state a mounted component reaches, whatever the user does and
  whatever arrives, at most one Message is \<open>Streaming\<close> and at most one response stream is
  open; and while a stream is active an attempt to send changes nothing: the form does not
  submit (its controls are disabled) and the client's \<open>send\<close> is a no-op, so no second
  request is issued.
\<close>

theorem one_stream_at_a_time:
  "streaming_count (fold (dispatch rt) evs initial_chat) \<le> 1
   \<and> open_streams (fold (dispatch rt) evs initial_chat) \<le> 1
   \<and> (isLoading (fold (dispatch rt) evs initial_chat) \<longrightarrow>
        dispatch rt Submit (fold (dispatch rt) evs initial_chat) = fold (dispatch rt) evs initial_chat
        \<and> send history (fold (dispatch rt) evs initial_chat) = fold (dispatch rt) evs initial_chat)"
  using chat_inv_streaming_count [OF chat_inv_reachable, of rt evs]
    chat_inv_open_streams [OF chat_inv_reachable, of rt evs]
  by (simp add: submit_disabled_def send_def)

text \<open>
  Claim C7 after the user typed \<^verbatim>\<open>hi\<close>, submitted, and the first fragment arrived: one Message
  is streaming, one stream is open, and a further submit or send changes nothing.
\<close>

theorem one_stream_at_a_time_witness:
  "isLoading (fold (dispatch stub_runtime)
       [ChangeInput (str ''hi''), Submit, Receive (TextDelta (str ''Hel''))] initial_chat)
   \<and> streaming_count (fold (dispatch stub_runtime)
       [ChangeInput (str ''hi''), Submit, Receive (TextDelta (str ''Hel''))] initial_chat) = 1
   \<and> open_streams (fold (dispatch stub_runtime)
       [ChangeInput (str ''hi''), Submit, Receive (TextDelta (str ''Hel''))] initial_chat) = 1
   \<and> dispatch stub_runtime Submit (fold (dispatch stub_runtime)
       [ChangeInput (str ''hi''), Submit, Receive (TextDelta (str ''Hel''))] initial_chat)
      = fold (dispatch stub_runtime)
       [ChangeInput (str ''hi''), Submit, Receive (TextDelta (str ''Hel''))] initial_chat
   \<and> send [] (fold (dispatch stub_runtime)
       [ChangeInput (str ''hi''), Submit, Receive (TextDelta (str ''Hel''))] initial_chat)
      = fold (dispatch stub_runtime)
       [ChangeInput (str ''hi''), Submit, Receive (TextDelta (str ''Hel''))] initial_chat"
proof -
  let ?s = "fold (dispatch stub_runtime)
       [ChangeInput (str ''hi''), Submit, Receive (TextDelta (str ''Hel''))] initial_chat"
  have a: "isLoading ?s"
    by (simp add: initial_chat_def controls_disabled_def submit_disabled_def handleInputChange_def
          onSubmit_def handleSubmit_def send_def hi_not_blank Let_def)
  have b: "streaming_count ?s = 1"
    by (simp add: initial_chat_def controls_disabled_def submit_disabled_def handleInputChange_def
          onSubmit_def handleSubmit_def send_def hi_not_blank Let_def streaming_count_def
          update_last_def)
  have c: "open_streams ?s = 1"
    by (simp add: initial_chat_def controls_disabled_def submit_disabled_def handleInputChange_def
          onSubmit_def handleSubmit_def send_def hi_not_blank Let_def)
  show ?thesis
    using a b c
      one_stream_at_a_time [of stub_runtime
        "[ChangeInput (str ''hi''), Submit, Receive (TextDelta (str ''Hel''))]" "[]"]
    by simp
qed

end
